theory Spec2Isabelle
  imports Complex_Main "HOL-Library.Sublist"
begin

section \<open>Python strings\<close>

text \<open>
  A Python \<open>str\<close> is modelled as a \<open>string\<close>: every ASCII character is one \<open>char\<close>, and text
  beyond ASCII appears in its UTF-8 encoding. The character classes of \<open>re\<close> (\<open>\d\<close>, \<open>\s\<close>,
  \<open>\w\<close>), \<open>str.lower\<close>, \<open>str.strip\<close> and \<open>str.split\<close> are modelled as Python defines them on
  ASCII; a character above 127 counts as a word character that is neither a digit nor white
  space and has no case.
\<close>

definition isspace :: "char \<Rightarrow> bool" where
  "isspace c = (let n = (of_char c :: nat) in (9 \<le> n \<and> n \<le> 13) \<or> (28 \<le> n \<and> n \<le> 32))"

definition isdigit :: "char \<Rightarrow> bool" where
  "isdigit c = (let n = (of_char c :: nat) in 48 \<le> n \<and> n \<le> 57)"

definition isword :: "char \<Rightarrow> bool" where
  "isword c = (let n = (of_char c :: nat) in
     (48 \<le> n \<and> n \<le> 57) \<or> (65 \<le> n \<and> n \<le> 90) \<or> (97 \<le> n \<and> n \<le> 122) \<or> n = 95 \<or> 128 \<le> n)"

definition isupper :: "char \<Rightarrow> bool" where
  "isupper c = (let n = (of_char c :: nat) in 65 \<le> n \<and> n \<le> 90)"

definition lower_char :: "char \<Rightarrow> char" where
  "lower_char c = (if isupper c then char_of ((of_char c :: nat) + 32) else c)"

definition lower :: "string \<Rightarrow> string" where
  "lower s = map lower_char s"

definition lstrip :: "string \<Rightarrow> string" where
  "lstrip s = dropWhile isspace s"

definition rstrip :: "string \<Rightarrow> string" where
  "rstrip s = rev (dropWhile isspace (rev s))"

definition strip :: "string \<Rightarrow> string" where
  "strip s = rstrip (lstrip s)"

definition rstrip_chars :: "string \<Rightarrow> string \<Rightarrow> string" where
  "rstrip_chars s cs = rev (dropWhile (\<lambda>c. c \<in> set cs) (rev s))"

fun startswith :: "string \<Rightarrow> string \<Rightarrow> bool" where
  "startswith s [] = True"
| "startswith [] (p # ps) = False"
| "startswith (c # cs) (p # ps) = (c = p \<and> startswith cs ps)"

text \<open>\<open>sub in s\<close>\<close>

fun contains :: "string \<Rightarrow> string \<Rightarrow> bool" where
  "contains [] sub = (sub = [])"
| "contains (c # cs) sub = (startswith (c # cs) sub \<or> contains cs sub)"

text \<open>\<open>s.split()\<close>: the maximal runs of characters that are not white space. The second
  argument is the run read so far, reversed.\<close>

fun split_aux :: "string \<Rightarrow> string \<Rightarrow> string list" where
  "split_aux [] cur = (if cur = [] then [] else [rev cur])"
| "split_aux (c # cs) cur =
     (if isspace c then (if cur = [] then split_aux cs [] else rev cur # split_aux cs [])
      else split_aux cs (c # cur))"

definition split :: "string \<Rightarrow> string list" where
  "split s = split_aux s []"

section \<open>Regular expressions\<close>

text \<open>
  The patterns of \<open>utils.py\<close> are sequences of repeated character classes, alternatives of
  literals and the anchor \<open>$\<close>. An \<open>item\<close> is one element of such a sequence; the matcher
  backtracks as \<open>re\<close> does: a greedy repetition tries the longest run first, a lazy one the
  shortest, and the first way that lets the rest of the pattern match is taken. The
  continuation \<open>k\<close> is the rest of the pattern, applied to the text that is left.
\<close>

datatype item =
    Rep "char \<Rightarrow> bool" nat "nat option"
  | RepLazy "char \<Rightarrow> bool" nat "nat option"
  | AltLit "string list"
  | Eol

definition dec :: "nat option \<Rightarrow> nat option" where
  "dec mx = map_option (\<lambda>n. n - 1) mx"

fun rep_greedy :: "(char \<Rightarrow> bool) \<Rightarrow> nat \<Rightarrow> nat option \<Rightarrow> (string \<Rightarrow> 'a option) \<Rightarrow> string \<Rightarrow> 'a option" where
  "rep_greedy P mn mx k [] = (if mn = 0 then k [] else None)"
| "rep_greedy P mn mx k (c # cs) =
     (if P c \<and> mx \<noteq> Some 0 then
        (case rep_greedy P (mn - 1) (dec mx) k cs of
           Some r \<Rightarrow> Some r
         | None \<Rightarrow> if mn = 0 then k (c # cs) else None)
      else if mn = 0 then k (c # cs) else None)"

fun rep_lazy :: "(char \<Rightarrow> bool) \<Rightarrow> nat \<Rightarrow> nat option \<Rightarrow> (string \<Rightarrow> 'a option) \<Rightarrow> string \<Rightarrow> 'a option" where
  "rep_lazy P mn mx k [] = (if mn = 0 then k [] else None)"
| "rep_lazy P mn mx k (c # cs) =
     (if mn = 0 then
        (case k (c # cs) of
           Some r \<Rightarrow> Some r
         | None \<Rightarrow> if P c \<and> mx \<noteq> Some 0 then rep_lazy P 0 (dec mx) k cs else None)
      else if P c \<and> mx \<noteq> Some 0 then rep_lazy P (mn - 1) (dec mx) k cs else None)"

text \<open>Alternatives of literals, matched without regard to case (\<open>re.IGNORECASE\<close>).\<close>

fun alt_lit :: "string list \<Rightarrow> (string \<Rightarrow> 'a option) \<Rightarrow> string \<Rightarrow> 'a option" where
  "alt_lit [] k s = None"
| "alt_lit (l # ls) k s =
     (if startswith (lower s) (lower l) then
        (case k (drop (length l) s) of Some r \<Rightarrow> Some r | None \<Rightarrow> alt_lit ls k s)
      else alt_lit ls k s)"

text \<open>\<open>$\<close> matches at the end of the text and before a newline that ends it.\<close>

definition eol :: "(string \<Rightarrow> 'a option) \<Rightarrow> string \<Rightarrow> 'a option" where
  "eol k s = (if s = [] \<or> s = [CHR 0x0A] then k s else None)"

fun match_item :: "item \<Rightarrow> (string \<Rightarrow> 'a option) \<Rightarrow> string \<Rightarrow> 'a option" where
  "match_item (Rep P mn mx) k s = rep_greedy P mn mx k s"
| "match_item (RepLazy P mn mx) k s = rep_lazy P mn mx k s"
| "match_item (AltLit ls) k s = alt_lit ls k s"
| "match_item Eol k s = eol k s"

primrec match_items :: "item list \<Rightarrow> (string \<Rightarrow> 'a option) \<Rightarrow> string \<Rightarrow> 'a option" where
  "match_items [] k = k"
| "match_items (it # its) k = match_item it (match_items its k)"

text \<open>The pattern elements used below.\<close>

definition lit :: "char \<Rightarrow> item" where
  "lit c = Rep (\<lambda>x. x = c) 1 (Some 1)"

definition lit_i :: "char \<Rightarrow> item" where
  "lit_i c = Rep (\<lambda>x. lower_char x = lower_char c) 1 (Some 1)"

definition dot :: "char \<Rightarrow> bool" where
  "dot c = (c \<noteq> CHR 0x0A)"

text \<open>
  \<open>re.search(g r, s).group(1)\<close> for a pattern whose group 1 is its first part \<open>g\<close>, followed
  by \<open>r\<close>: the text that \<open>g\<close> consumed in the leftmost match, \<open>None\<close> when nothing matches.
\<close>

definition match_group1 :: "item list \<Rightarrow> item list \<Rightarrow> string \<Rightarrow> string option" where
  "match_group1 g r s =
     match_items g (\<lambda>s1. match_items r (\<lambda>s2. Some (take (length s - length s1) s)) s1) s"

fun re_search_group1 :: "item list \<Rightarrow> item list \<Rightarrow> string \<Rightarrow> string option" where
  "re_search_group1 g r [] = match_group1 g r []"
| "re_search_group1 g r (c # cs) =
     (case match_group1 g r (c # cs) of
        Some m \<Rightarrow> Some m
      | None \<Rightarrow> re_search_group1 g r cs)"

text \<open>
  \<open>re.sub(p, repl, s)\<close> for a pattern that matches no empty text (none of the patterns
  passed to it does): every leftmost match is replaced and the scan goes on behind it.
\<close>

function re_sub :: "item list \<Rightarrow> string \<Rightarrow> string \<Rightarrow> string" where
  "re_sub p repl [] = []"
| "re_sub p repl (c # cs) =
     (case match_items p Some (c # cs) of
        None \<Rightarrow> c # re_sub p repl cs
      | Some rest \<Rightarrow>
          if length rest < length (c # cs) then repl @ re_sub p repl rest
          else c # re_sub p repl cs)"
  by pat_completeness auto
termination
  by (relation "measure (\<lambda>(p, repl, s). length s)") auto

text \<open>\<open>re.sub\<close> for a pattern that starts with \<open>^\<close>: it can match at the start only.\<close>

definition re_sub_start :: "item list \<Rightarrow> string \<Rightarrow> string \<Rightarrow> string" where
  "re_sub_start p repl s = (case match_items p Some s of None \<Rightarrow> s | Some rest \<Rightarrow> repl @ rest)"

section \<open>Article validation (\<open>validate_article\<close>)\<close>

text \<open>
  An element of the input is a dictionary from field names to text, written as the list of
  its entries, or something that is not a dictionary. A field is missing when the dictionary
  has no entry for it and empty when its text is empty.
\<close>

type_synonym dict = "(string \<times> string) list"

datatype article = NonDict | Dict dict

definition dict_get :: "dict \<Rightarrow> string \<Rightarrow> string \<Rightarrow> string" where
  "dict_get d key dflt = (case map_of d key of None \<Rightarrow> dflt | Some v \<Rightarrow> v)"

definition required_fields :: "string list" where
  "required_fields = [''headline'', ''link'']"

definition spam_indicators :: "string list" where
  "spam_indicators = [''click here'', ''free download'', ''limited time'', ''!!!'']"

fun validate_article :: "article \<Rightarrow> bool" where
  "validate_article NonDict = False"
| "validate_article (Dict d) =
     (if \<exists>field \<in> set required_fields. map_of d field = None \<or> map_of d field = Some [] then False
      else let url = dict_get d ''link'' [] in
        if \<not> (startswith url ''http://'' \<or> startswith url ''https://'') then False
        else let headline = dict_get d ''headline'' [] in
          if length (strip headline) < 5 then False
          else let headline_lower = lower headline in
            if \<exists>indicator \<in> set spam_indicators. contains headline_lower indicator then False
            else True)"

section \<open>Deduplication (\<open>deduplicate_articles\<close>)\<close>

definition normalize_title :: "string \<Rightarrow> string" where
  "normalize_title title =
     (let t1 = re_sub_start [lit CHR ''['', RepLazy dot 0 None, lit CHR '']'', Rep isspace 0 None] [] title;
          t2 = re_sub [Rep isspace 0 None, lit CHR ''|'', Rep isspace 0 None, Rep dot 0 None, Eol] [] t1;
          t3 = re_sub [Rep (\<lambda>c. \<not> isword c \<and> \<not> isspace c) 1 (Some 1)] [] (lower t2);
          t4 = strip (re_sub [Rep isspace 1 None] '' '' t3)
      in t4)"

definition normalize_url :: "string \<Rightarrow> string" where
  "normalize_url url =
     (let u1 = re_sub [Rep (\<lambda>c. c = CHR ''?'' \<or> c = CHR ''#'') 1 (Some 1), Rep dot 0 None, Eol] [] url;
          u2 = rstrip_chars u1 ''/''
      in lower u2)"

text \<open>
  \<open>article['link']\<close> and \<open>article['headline']\<close> are read only after \<open>validate_article\<close> has
  accepted the article, so both fields are present (lemma \<open>validate_article_fields\<close>).
\<close>

fun getitem :: "article \<Rightarrow> string \<Rightarrow> string" where
  "getitem (Dict d) key = the (map_of d key)"
| "getitem NonDict key = []"

text \<open>
  The body of the loop over \<open>seen_titles\<close> for one seen title: the word sets, their
  intersection and union, and the test \<open>similarity > 0.8\<close>. The quotient of the two counts
  is taken in the reals; the floating-point quotient compares with the floating-point 0.8 in
  the same way as long as the union has fewer than \<open>10^15\<close> words.
\<close>

definition similarity :: "string set \<Rightarrow> string set \<Rightarrow> real" where
  "similarity title_words seen_words =
     (let intersection = card (title_words \<inter> seen_words);
          union = card (title_words \<union> seen_words)
      in if union > 0 then real intersection / real union else 0)"

definition similar_title :: "string \<Rightarrow> string \<Rightarrow> bool" where
  "similar_title title seen_title =
     (let title_words = set (split title); seen_words = set (split seen_title)
      in if card title_words > 0 \<and> card seen_words > 0
         then similarity title_words seen_words > 0.8 else False)"

record dedup_state =
  seen_urls :: "string set"
  seen_titles :: "string set"
  unique_articles :: "article list"

definition dedup_init :: dedup_state where
  "dedup_init = \<lparr>seen_urls = {}, seen_titles = {}, unique_articles = []\<rparr>"

text \<open>One turn of \<open>for article in articles\<close>; every \<open>continue\<close> returns the state as it is.\<close>

definition dedup_step :: "dedup_state \<Rightarrow> article \<Rightarrow> dedup_state" where
  "dedup_step st article =
     (if \<not> validate_article article then st
      else let url = normalize_url (getitem article ''link'');
               title = normalize_title (getitem article ''headline'')
        in if url \<in> seen_urls st then st
           else let title_is_duplicate = (\<exists>seen_title \<in> seen_titles st. similar_title title seen_title)
             in if title_is_duplicate then st
                else \<lparr>seen_urls = insert url (seen_urls st),
                      seen_titles = insert title (seen_titles st),
                      unique_articles = unique_articles st @ [article]\<rparr>)"

definition deduplicate_articles :: "article list \<Rightarrow> article list" where
  "deduplicate_articles articles =
     (if articles = [] then [] else unique_articles (foldl dedup_step dedup_init articles))"

section \<open>Dates and times\<close>

text \<open>
  What the code uses of \<open>datetime\<close>: a date and time with an optional offset from UTC in
  seconds (\<open>None\<close> for a naive value), the proleptic Gregorian ordinal of a date, and the
  difference of two values as a \<open>timedelta\<close> in microseconds. Subtracting a naive value from
  an aware one, or the reverse, raises \<open>TypeError\<close>.
\<close>

datatype error = ValueError | TypeError | OverflowError

record datetime =
  year :: nat
  month :: nat
  day :: nat
  hour :: nat
  minute :: nat
  second :: nat
  microsecond :: nat
  tzinfo :: "int option"

definition is_leap :: "nat \<Rightarrow> bool" where
  "is_leap y = (y mod 4 = 0 \<and> (y mod 100 \<noteq> 0 \<or> y mod 400 = 0))"

definition days_in_month :: "nat \<Rightarrow> nat \<Rightarrow> nat" where
  "days_in_month y m =
     (if m = 2 then (if is_leap y then 29 else 28)
      else if m = 4 \<or> m = 6 \<or> m = 9 \<or> m = 11 then 30 else 31)"

definition days_before_year :: "nat \<Rightarrow> int" where
  "days_before_year y = (let y1 = int y - 1 in y1 * 365 + y1 div 4 - y1 div 100 + y1 div 400)"

definition days_before_month :: "nat \<Rightarrow> nat \<Rightarrow> int" where
  "days_before_month y m = int (sum_list (map (days_in_month y) [1..<m]))"

definition toordinal :: "datetime \<Rightarrow> int" where
  "toordinal dt = days_before_year (year dt) + days_before_month (year dt) (month dt) + int (day dt)"

definition time_micro :: "datetime \<Rightarrow> int" where
  "time_micro dt =
     ((int (hour dt) * 60 + int (minute dt)) * 60 + int (second dt)) * 1000000 + int (microsecond dt)"

definition day_micro :: int where
  "day_micro = 86400 * 1000000"

definition to_micro :: "datetime \<Rightarrow> int" where
  "to_micro dt = toordinal dt * day_micro + time_micro dt"

definition utc_micro :: "datetime \<Rightarrow> int" where
  "utc_micro dt = to_micro dt - (case tzinfo dt of None \<Rightarrow> 0 | Some off \<Rightarrow> off * 1000000)"

definition datetime_sub :: "datetime \<Rightarrow> datetime \<Rightarrow> error + int" where
  "datetime_sub a b =
     (if (tzinfo a = None) \<noteq> (tzinfo b = None) then Inl TypeError
      else Inr (utc_micro a - utc_micro b))"

definition total_seconds :: "int \<Rightarrow> real" where
  "total_seconds td = real_of_int td / 1000000"

definition valid_date :: "nat \<Rightarrow> nat \<Rightarrow> nat \<Rightarrow> bool" where
  "valid_date y m d = (1 \<le> y \<and> y \<le> 9999 \<and> 1 \<le> m \<and> m \<le> 12 \<and> 1 \<le> d \<and> d \<le> days_in_month y m)"

text \<open>
  The clock: what \<open>datetime.now()\<close> and \<open>datetime.now(timezone.utc)\<close> return. The first is
  naive and the second is aware with offset 0, whatever the fields are.
\<close>

record clock =
  local_now :: datetime
  utc_now :: datetime

definition now_local :: "clock \<Rightarrow> datetime" where
  "now_local clk = (local_now clk)\<lparr>tzinfo := None\<rparr>"

definition now_utc :: "clock \<Rightarrow> datetime" where
  "now_utc clk = (utc_now clk)\<lparr>tzinfo := Some 0\<rparr>"

subsection \<open>Reading numbers and dates\<close>

definition digits_val :: "string \<Rightarrow> nat" where
  "digits_val s = foldl (\<lambda>n c. 10 * n + (of_char c - 48)) 0 s"

definition all_digits :: "string \<Rightarrow> bool" where
  "all_digits s = (s \<noteq> [] \<and> list_all isdigit s)"

text \<open>\<open>int(x)\<close> on the text of a group \<open>\d+\<close>; anything that is not a numeral made of digits
  raises \<open>ValueError\<close>. Integers are unbounded, and so is the length of a numeral.\<close>

definition py_int :: "string \<Rightarrow> error + nat" where
  "py_int x = (if all_digits x then Inr (digits_val x) else Inl ValueError)"

text \<open>\<open>s[i:j]\<close>\<close>

definition slice :: "string \<Rightarrow> nat \<Rightarrow> nat \<Rightarrow> string" where
  "slice s i j = take (j - i) (drop i s)"

text \<open>
  \<open>datetime.fromisoformat\<close> on the two forms \<open>YYYY-MM-DD?HH:MM:SS\<close> (any character between
  date and time) and the same with an offset \<open>+HH:MM\<close> or \<open>-HH:MM\<close> behind it. The first
  form gives a naive value, the second an aware one. Other forms are not modelled and count
  as malformed; \<open>parse_relative_time\<close> passes the first form only.
\<close>

definition fromisoformat :: "string \<Rightarrow> error + datetime" where
  "fromisoformat s =
     (if length s \<noteq> 19 \<and> length s \<noteq> 25 then Inl ValueError
      else if \<not> (all_digits (slice s 0 4) \<and> s ! 4 = CHR ''-'' \<and> all_digits (slice s 5 7)
                \<and> s ! 7 = CHR ''-'' \<and> all_digits (slice s 8 10) \<and> all_digits (slice s 11 13)
                \<and> s ! 13 = CHR '':'' \<and> all_digits (slice s 14 16) \<and> s ! 16 = CHR '':''
                \<and> all_digits (slice s 17 19)) then Inl ValueError
      else let y = digits_val (slice s 0 4); mo = digits_val (slice s 5 7);
               d = digits_val (slice s 8 10); h = digits_val (slice s 11 13);
               mi = digits_val (slice s 14 16); sec = digits_val (slice s 17 19)
        in if \<not> valid_date y mo d \<or> h > 23 \<or> mi > 59 \<or> sec > 59 then Inl ValueError
           else if length s = 19 then
             Inr \<lparr>year = y, month = mo, day = d, hour = h, minute = mi, second = sec,
                  microsecond = 0, tzinfo = None\<rparr>
           else if \<not> ((s ! 19 = CHR ''+'' \<or> s ! 19 = CHR ''-'') \<and> all_digits (slice s 20 22)
                        \<and> s ! 22 = CHR '':'' \<and> all_digits (slice s 23 25)) then Inl ValueError
           else let th = digits_val (slice s 20 22); tm = digits_val (slice s 23 25)
             in if th > 23 \<or> tm > 59 then Inl ValueError
                else Inr \<lparr>year = y, month = mo, day = d, hour = h, minute = mi, second = sec,
                       microsecond = 0,
                       tzinfo = Some ((if s ! 19 = CHR ''-'' then - 1 else 1)
                                      * (int th * 3600 + int tm * 60))\<rparr>)"

text \<open>The longest run of at most \<open>n\<close> digits at the start of a text, and what follows it.\<close>

definition span_digits :: "nat \<Rightarrow> string \<Rightarrow> string \<times> string" where
  "span_digits n s = (let ds = takeWhile isdigit (take n s) in (ds, drop (length ds) s))"

text \<open>
  \<open>datetime.strptime(s, '%I:%M %p')\<close>: an hour from 1 to 12 in one or two digits, a colon, a
  minute up to 59 in one or two digits, white space, \<open>am\<close> or \<open>pm\<close> in any case, and nothing
  behind it. The result is the hour on the 24-hour clock and the minute.
\<close>

definition strptime_IMp :: "string \<Rightarrow> error + (nat \<times> nat)" where
  "strptime_IMp s =
     (let (hs, r1) = span_digits 2 s in
      if hs = [] \<or> digits_val hs < 1 \<or> digits_val hs > 12 then Inl ValueError
      else case r1 of
        [] \<Rightarrow> Inl ValueError
      | c # r2 \<Rightarrow>
          if c \<noteq> CHR '':'' then Inl ValueError
          else let (ms, r3) = span_digits 2 r2 in
            if ms = [] \<or> digits_val ms > 59 then Inl ValueError
            else let r4 = dropWhile isspace r3 in
              if length r4 = length r3 then Inl ValueError
              else if lower r4 = ''am'' then Inr (digits_val hs mod 12, digits_val ms)
              else if lower r4 = ''pm'' then Inr (digits_val hs mod 12 + 12, digits_val ms)
              else Inl ValueError)"

text \<open>
  \<open>datetime.strptime(s, '%m/%d/%Y')\<close> and, with the other separator, \<open>'%m-%d-%Y'\<close>: a month
  from 1 to 12 and a day from 1 to 31 in one or two digits, a year in four digits, nothing
  behind it, and the date must exist.
\<close>

definition strptime_mdY :: "char \<Rightarrow> string \<Rightarrow> error + datetime" where
  "strptime_mdY sep s =
     (let (ms, r1) = span_digits 2 s in
      if ms = [] \<or> digits_val ms < 1 \<or> digits_val ms > 12 then Inl ValueError
      else case r1 of
        [] \<Rightarrow> Inl ValueError
      | c # r2 \<Rightarrow>
          if c \<noteq> sep then Inl ValueError
          else let (ds, r3) = span_digits 2 r2 in
            if ds = [] \<or> digits_val ds < 1 \<or> digits_val ds > 31 then Inl ValueError
            else case r3 of
              [] \<Rightarrow> Inl ValueError
            | c' # r4 \<Rightarrow>
                if c' \<noteq> sep then Inl ValueError
                else if \<not> (length r4 = 4 \<and> all_digits r4) then Inl ValueError
                else if \<not> valid_date (digits_val r4) (digits_val ms) (digits_val ds)
                  then Inl ValueError
                else Inr \<lparr>year = digits_val r4, month = digits_val ms, day = digits_val ds,
                       hour = 0, minute = 0, second = 0, microsecond = 0, tzinfo = None\<rparr>)"

section \<open>Time normalization (\<open>parse_relative_time\<close> and its converters)\<close>

definition replace_Z :: "string \<Rightarrow> string" where
  "replace_Z s = concat (map (\<lambda>c. if c = CHR ''Z'' then ''+00:00'' else [c]) s)"

text \<open>
  Every exception inside the three converters is caught and turned into \<open>None\<close>. Ages are
  real numbers: the floating-point numbers of Python are taken as exact.
\<close>

definition parse_iso_timestamp :: "clock \<Rightarrow> string \<Rightarrow> real option" where
  "parse_iso_timestamp clk timestamp_str =
     (case fromisoformat (replace_Z timestamp_str) of
        Inl e \<Rightarrow> None
      | Inr dt \<Rightarrow>
          let now = now_utc clk in
          case datetime_sub now dt of
            Inl e \<Rightarrow> None
          | Inr diff \<Rightarrow> Some (total_seconds diff / 3600))"

text \<open>
  \<open>today_with_parsed_time\<close> is \<open>now\<close> with the parsed hour and minute; when it lies behind
  \<open>now\<close>, a day is taken off, which raises \<open>OverflowError\<close> on the first day of year 1.
\<close>

definition parse_time_today :: "clock \<Rightarrow> string \<Rightarrow> real option" where
  "parse_time_today clk time_str =
     (let clean_time = re_sub [Rep isspace 0 None, Rep isupper 3 (Some 4), Eol] [] (strip time_str) in
      case strptime_IMp clean_time of
        Inl e \<Rightarrow> None
      | Inr (h, m) \<Rightarrow>
          let now = now_local clk;
              today_with_parsed_time = now\<lparr>hour := h, minute := m, second := 0, microsecond := 0\<rparr>
          in if to_micro today_with_parsed_time > to_micro now then
               (if toordinal today_with_parsed_time \<le> 1 then None
                else Some (total_seconds (to_micro now - (to_micro today_with_parsed_time - day_micro)) / 3600))
             else Some (total_seconds (to_micro now - to_micro today_with_parsed_time) / 3600))"

definition parse_date_format :: "clock \<Rightarrow> string \<Rightarrow> string \<Rightarrow> real option" where
  "parse_date_format clk date_str separator =
     (case (if separator = ''/'' then strptime_mdY CHR ''/'' date_str
            else strptime_mdY CHR ''-'' date_str) of
        Inl e \<Rightarrow> None
      | Inr date_obj \<Rightarrow>
          let now = now_local clk in
          case datetime_sub now date_obj of
            Inl e \<Rightarrow> None
          | Inr diff \<Rightarrow> Some (total_seconds diff / 3600))"

subsection \<open>The pattern table\<close>

text \<open>
  Every pattern is searched with \<open>re.IGNORECASE\<close>, so a literal character matches in either
  case. A pattern is given by its group 1, by what follows the group, and by its converter;
  a converter returns a number or \<open>None\<close>, or raises.
\<close>

type_synonym pattern = "item list \<times> item list \<times> (string \<Rightarrow> error + real option)"

definition lits_i :: "string \<Rightarrow> item list" where
  "lits_i s = map lit_i s"

definition opt_i :: "char \<Rightarrow> item" where
  "opt_i c = Rep (\<lambda>x. lower_char x = lower_char c) 0 (Some 1)"

text \<open>\<open>(\d+)\<close>, and behind it \<open>\s*unit s?\s+ago\<close> or \<open>\s*unit\s+word\<close>.\<close>

definition digits1 :: "item list" where
  "digits1 = [Rep isdigit 1 None]"

definition ago :: "string \<Rightarrow> item list" where
  "ago unit = Rep isspace 0 None # lits_i unit @ [opt_i CHR ''s'', Rep isspace 1 None] @ lits_i ''ago''"

definition followed_by :: "string \<Rightarrow> string \<Rightarrow> item list" where
  "followed_by unit word = Rep isspace 0 None # lits_i unit @ [Rep isspace 1 None] @ lits_i word"

text \<open>The Hindi words of the table, in UTF-8: hours, minutes, days and "before".\<close>

definition ghante :: string where
  "ghante = [CHR 0xE0, CHR 0xA4, CHR 0x98, CHR 0xE0, CHR 0xA4, CHR 0x82,
             CHR 0xE0, CHR 0xA4, CHR 0x9F, CHR 0xE0, CHR 0xA5, CHR 0x87]"

definition minat :: string where
  "minat = [CHR 0xE0, CHR 0xA4, CHR 0xAE, CHR 0xE0, CHR 0xA4, CHR 0xBF,
            CHR 0xE0, CHR 0xA4, CHR 0xA8, CHR 0xE0, CHR 0xA4, CHR 0x9F]"

definition din :: string where
  "din = [CHR 0xE0, CHR 0xA4, CHR 0xA6, CHR 0xE0, CHR 0xA4, CHR 0xBF, CHR 0xE0, CHR 0xA4, CHR 0xA8]"

definition pahle :: string where
  "pahle = [CHR 0xE0, CHR 0xA4, CHR 0xAA, CHR 0xE0, CHR 0xA4, CHR 0xB9,
            CHR 0xE0, CHR 0xA4, CHR 0xB2, CHR 0xE0, CHR 0xA5, CHR 0x87]"

definition int_conv :: "(nat \<Rightarrow> real) \<Rightarrow> string \<Rightarrow> error + real option" where
  "int_conv f x = (case py_int x of Inl e \<Rightarrow> Inl e | Inr n \<Rightarrow> Inr (Some (f n)))"

definition iso_group :: "item list" where
  "iso_group = [Rep isdigit 4 (Some 4), lit_i CHR ''-'', Rep isdigit 2 (Some 2), lit_i CHR ''-'',
     Rep isdigit 2 (Some 2), lit_i CHR ''T'', Rep isdigit 2 (Some 2), lit_i CHR '':'',
     Rep isdigit 2 (Some 2), lit_i CHR '':'', Rep isdigit 2 (Some 2)]"

definition time_group :: "item list" where
  "time_group = [Rep isdigit 1 (Some 2), lit_i CHR '':'', Rep isdigit 2 (Some 2),
     Rep isspace 0 None, AltLit [''AM'', ''PM'']]"

definition date_group :: "char \<Rightarrow> item list" where
  "date_group sep = [Rep isdigit 1 (Some 2), lit_i sep, Rep isdigit 1 (Some 2), lit_i sep,
     Rep isdigit 4 (Some 4)]"

definition patterns :: "clock \<Rightarrow> pattern list" where
  "patterns clk =
     [(digits1, ago ''second'', int_conv (\<lambda>x. real x / 3600)),
      (digits1, ago ''min'', int_conv (\<lambda>x. real x / 60)),
      (digits1, ago ''minute'', int_conv (\<lambda>x. real x / 60)),
      (digits1, ago ''hr'', int_conv (\<lambda>x. real x)),
      (digits1, ago ''hour'', int_conv (\<lambda>x. real x)),
      (digits1, ago ''day'', int_conv (\<lambda>x. real x * 24)),
      (digits1, ago ''week'', int_conv (\<lambda>x. real x * 24 * 7)),
      (digits1, ago ''month'', int_conv (\<lambda>x. real x * 24 * 30)),
      (digits1, followed_by ghante pahle, int_conv (\<lambda>x. real x)),
      (digits1, followed_by minat pahle, int_conv (\<lambda>x. real x / 60)),
      (digits1, followed_by din pahle, int_conv (\<lambda>x. real x * 24)),
      (iso_group, [], \<lambda>x. Inr (parse_iso_timestamp clk x)),
      (time_group, [], \<lambda>x. Inr (parse_time_today clk x)),
      (date_group CHR ''/'', [], \<lambda>x. Inr (parse_date_format clk x ''/'')),
      (date_group CHR ''-'', [], \<lambda>x. Inr (parse_date_format clk x ''-''))]"

text \<open>
  The loop over the table: the first pattern found in the text decides, unless its converter
  raises \<open>ValueError\<close> or \<open>TypeError\<close>, in which case the loop goes on. The result is \<open>None\<close>
  when the loop ends without a \<open>return\<close>.
\<close>

fun try_patterns :: "pattern list \<Rightarrow> string \<Rightarrow> real option option" where
  "try_patterns [] text = None"
| "try_patterns ((g, r, converter) # ps) text =
     (case re_search_group1 g r text of
        None \<Rightarrow> try_patterns ps text
      | Some x \<Rightarrow>
          (case converter x of
             Inl e \<Rightarrow> try_patterns ps text
           | Inr v \<Rightarrow> Some v))"

definition special_cases :: "(string \<times> real) list" where
  "special_cases =
     [(''just now'', 0), (''a moment ago'', 0), (''few seconds ago'', 0), (''a minute ago'', 1 / 60),
      (''an hour ago'', 1), (''today'', 0), (''this morning'', 6), (''this afternoon'', 3),
      (''this evening'', 1), (''yesterday'', 24), (''a day ago'', 24), (''last night'', 12),
      (''this week'', 24 * 3), (''last week'', 24 * 7), (''a week ago'', 24 * 7)]"

text \<open>The argument is \<open>None\<close> or a text; both \<open>None\<close> and the empty text are false.\<close>

definition parse_relative_time :: "clock \<Rightarrow> string option \<Rightarrow> real option" where
  "parse_relative_time clk timestamp_text =
     (case timestamp_text of
        None \<Rightarrow> None
      | Some t \<Rightarrow>
          if t = [] then None
          else let text = strip (lower t) in
            case try_patterns (patterns clk) text of
              Some v \<Rightarrow> v
            | None \<Rightarrow>
                (case find (\<lambda>(phrase, hours). contains text phrase) special_cases of
                   Some (phrase, hours) \<Rightarrow> Some hours
                 | None \<Rightarrow> None))"

section \<open>The timeframe filter (\<open>is_within_timeframe\<close>)\<close>



subsection \<open>The duplicate test in the words of the specification\<close>

text \<open>
  The two keys of an article, the Jaccard similarity of two normalized headlines over their
  sets of words, and what it means for an article to be a duplicate of one of the articles
  kept so far.
\<close>

definition url_of :: "article \<Rightarrow> string" where
  "url_of a = normalize_url (getitem a ''link'')"

definition title_of :: "article \<Rightarrow> string" where
  "title_of a = normalize_title (getitem a ''headline'')"

definition jaccard :: "string \<Rightarrow> string \<Rightarrow> real" where
  "jaccard t s = similarity (set (split t)) (set (split s))"

definition duplicate_of_kept :: "article \<Rightarrow> article list \<Rightarrow> bool" where
  "duplicate_of_kept a kept =
     (\<exists>k \<in> set kept. url_of k = url_of a \<or> jaccard (title_of a) (title_of k) > 0.8)"

text \<open>The loop seen on the list of kept articles alone.\<close>

definition accepts :: "article list \<Rightarrow> article \<Rightarrow> bool" where
  "accepts kept a = (validate_article a \<and> \<not> duplicate_of_kept a kept)"

definition keep :: "article list \<Rightarrow> article \<Rightarrow> article list" where
  "keep kept a = (if accepts kept a then kept @ [a] else kept)"

definition state_of :: "article list \<Rightarrow> dedup_state" where
  "state_of kept = \<lparr>seen_urls = url_of ` set kept, seen_titles = title_of ` set kept,
     unique_articles = kept\<rparr>"

subsection \<open>Example articles\<close>

definition budget1 :: article where
  "budget1 = Dict [(''site'', ''A''), (''headline'', ''Budget update''), (''link'', ''http://a.com/1''),
     (''timestamp'', ''3 hours ago'')]"

definition budget2 :: article where
  "budget2 = Dict [(''site'', ''A''), (''headline'', ''Budget update''), (''link'', ''http://a.com/1?ref=2''),
     (''timestamp'', ''3 hours ago'')]"

definition old_story :: article where
  "old_story = Dict [(''site'', ''A''), (''headline'', ''Old story''), (''link'', ''http://a.com/2''),
     (''timestamp'', ''5 days ago'')]"

definition funding_tag :: article where
  "funding_tag = Dict [(''headline'', ''[Tech] Company X raises funding round''),
     (''link'', ''https://x.com/a'')]"


definition short_headline :: article where
  "short_headline = Dict [(''headline'', ''Hi''), (''link'', ''https://x.com'')]"

definition long_spam :: article where
  "long_spam = Dict [(''headline'',
       ''Click here for the full text of the central bank statement on interest rates and inflation''),
     (''link'', ''https://x.com/statement'')]"

subsection \<open>The numeric relative patterns in the words of the specification\<close>



text \<open>The decimal numeral of a number, as \<open>str\<close> writes it.\<close>

fun decimal :: "nat \<Rightarrow> string" where
  "decimal n = (if n < 10 then [char_of (48 + n)] else decimal (n div 10) @ [char_of (48 + n mod 10)])"

declare decimal.simps [simp del]




subsection \<open>Which rule produced a result\<close>



definition numeric_found :: "clock \<Rightarrow> string \<Rightarrow> bool" where
  "numeric_found clk text =
     list_ex (\<lambda>(g, r, c). re_search_group1 g r text \<noteq> None) (take 11 (patterns clk))"

text \<open>A pattern element that consumes exactly \<open>n\<close> characters, none of them \<open>Z\<close>.\<close>

definition fixed_item :: "item \<Rightarrow> nat \<Rightarrow> bool" where
  "fixed_item it n = (\<exists>P. it = Rep P n (Some n) \<and> (\<forall>c. P c \<longrightarrow> c \<noteq> CHR ''Z''))"

subsection \<open>An example clock\<close>

text \<open>15 January 2024, 10:00 local time, 02:00 UTC.\<close>

definition clock0 :: clock where
  "clock0 = \<lparr>local_now = \<lparr>year = 2024, month = 1, day = 15, hour = 10, minute = 0, second = 0,
                           microsecond = 0, tzinfo = None\<rparr>,
             utc_now = \<lparr>year = 2024, month = 1, day = 15, hour = 2, minute = 0, second = 0,
                         microsecond = 0, tzinfo = Some 0\<rparr>\<rparr>"

section \<open>The orchestrator (\<open>app.py\<close>)\<close>

text \<open>
  A dictionary with insertion order is a list of entries with distinct keys: assigning to a
  key that is present replaces its value in place, assigning to a new key appends an entry.
\<close>

fun dict_set :: "string \<Rightarrow> 'v \<Rightarrow> (string \<times> 'v) list \<Rightarrow> (string \<times> 'v) list" where
  "dict_set k v [] = [(k, v)]"
| "dict_set k v ((k', v') # d) = (if k' = k then (k, v) # d else (k', v') # dict_set k v d)"

definition dict_update :: "(string \<times> 'v) list \<Rightarrow> (string \<times> 'v) list \<Rightarrow> (string \<times> 'v) list" where
  "dict_update d other = foldl (\<lambda>d (k, v). dict_set k v d) d other"

text \<open>
  A call of a collaborator returns a value or raises an exception, given by the text of the
  exception (\<open>str(e)\<close>).
\<close>

type_synonym 'a outcome = "string + 'a"

type_synonym news = "(string \<times> article list) list"

text \<open>The five collectors that \<open>run_scraping_task\<close> calls for one group each.\<close>

datatype source = Singapore | Japan | India | Korea | Yahoo

fun label :: "source \<Rightarrow> string" where
  "label Singapore = ''Singapore''"
| "label Japan = ''Japan''"
| "label India = ''India''"
| "label Korea = ''Korea''"
| "label Yahoo = ''Yahoo Finance''"

fun progress_before :: "source \<Rightarrow> nat" where
  "progress_before Singapore = 10"
| "progress_before Japan = 30"
| "progress_before India = 50"
| "progress_before Korea = 70"
| "progress_before Yahoo = 85"

fun progress_after :: "source \<Rightarrow> nat" where
  "progress_after Singapore = 20"
| "progress_after Japan = 40"
| "progress_after India = 60"
| "progress_after Korea = 80"
| "progress_after Yahoo = 90"

text \<open>
  The international sources of \<open>others.fetch_all_others\<close>. Each is fetched inside its own
  \<open>try\<close>; an exception is logged and an empty list is stored under the key of the source.
  The function itself returns the dictionary of the five sources.
\<close>

datatype intl = TradeWinds | Bloomberg | TrendForce | UDN | GMK

fun intl_key :: "intl \<Rightarrow> string" where
  "intl_key TradeWinds = ''TradeWinds''"
| "intl_key Bloomberg = ''Bloomberg''"
| "intl_key TrendForce = ''TrendForce''"
| "intl_key UDN = ''UDN Money''"
| "intl_key GMK = ''GMK Center''"

definition fetch_all_others :: "(intl \<Rightarrow> article list outcome) \<Rightarrow> news" where
  "fetch_all_others fetch_intl =
     foldl (\<lambda>all_sources src.
              case fetch_intl src of
                Inr articles \<Rightarrow> dict_set (intl_key src) articles all_sources
              | Inl e \<Rightarrow> dict_set (intl_key src) [] all_sources)
       [] [TradeWinds, Bloomberg, TrendForce, UDN, GMK]"

text \<open>
  What a run meets outside the orchestrator: the weekday at the start (Monday is 0), the five
  collectors, \<open>others.fetch_all_others\<close> and \<open>create_excel_file\<close>, which returns a success flag
  and a path.
\<close>

record env =
  weekday :: nat
  fetch :: "source \<Rightarrow> article list outcome"
  fetch_others :: "news outcome"
  create_excel_file :: "news \<Rightarrow> nat \<Rightarrow> (bool \<times> string) outcome"

text \<open>The \<open>scraping_complete\<close> event that ends a run.\<close>

record completion =
  success :: bool
  complete_total :: nat
  complete_errors :: "string list"
  excel_available :: bool

text \<open>
  The state of the application: the fields of the global \<open>scraping_state\<close> (without the
  start time), the local variables \<open>hours\<close> and \<open>news_by_source\<close> of the running task and the
  place it has reached, and what the run has done outside: the collaborators called, the
  progress events emitted and the final event.
\<close>

record world =
  running :: bool
  progress :: nat
  current_source :: string
  results :: news
  total_articles :: nat
  errors :: "string list"
  last_excel_path :: "string option"
  hours :: nat
  news_by_source :: news
  pc :: nat
  calls :: "string list"
  emitted :: "(nat \<times> string) list"
  completed :: "completion option"

definition world0 :: world where
  "world0 = \<lparr>running = False, progress = 0, current_source = [], results = [], total_articles = 0,
     errors = [], last_excel_path = None, hours = 0, news_by_source = [], pc = 0, calls = [],
     emitted = [], completed = None\<rparr>"

definition count_articles :: "news \<Rightarrow> nat" where
  "count_articles d = sum_list (map (\<lambda>(k, articles). length articles) d)"

definition emit_progress :: "nat \<Rightarrow> string \<Rightarrow> news \<Rightarrow> world \<Rightarrow> world" where
  "emit_progress p message source_results w =
     (let w1 = w\<lparr>progress := p, current_source := message\<rparr>;
          w2 = (if source_results \<noteq> [] then
                  w1\<lparr>results := dict_update (results w1) source_results,
                     total_articles := count_articles (dict_update (results w1) source_results)\<rparr>
                else w1)
      in w2\<lparr>emitted := emitted w2 @ [(p, message)]\<rparr>)"

definition get_collection_hours :: "nat \<Rightarrow> nat" where
  "get_collection_hours current_day = (if current_day = 0 then 72 else 24)"

text \<open>The start of \<open>run_scraping_task\<close>.\<close>

definition initialise :: "env \<Rightarrow> world \<Rightarrow> world" where
  "initialise e w =
     (let w1 = w\<lparr>running := True, results := [], total_articles := 0, errors := []\<rparr>;
          w2 = emit_progress 0 ''Initializing scrapers...'' [] w1
      in w2\<lparr>hours := get_collection_hours (weekday e), news_by_source := []\<rparr>)"

text \<open>One of the five blocks \<open># 1. Singapore\<close> to \<open># 5. Yahoo Finance\<close>.\<close>

definition collect :: "env \<Rightarrow> source \<Rightarrow> world \<Rightarrow> world" where
  "collect e src w =
     (let w1 = emit_progress (progress_before src) (''Collecting '' @ label src @ '' news...'') [] w;
          w2 = w1\<lparr>calls := calls w1 @ [label src]\<rparr>
      in case fetch e src of
           Inr articles \<Rightarrow>
             emit_progress (progress_after src)
               (label src @ '': '' @ decimal (length articles) @ '' articles collected'')
               [(label src, articles)]
               (w2\<lparr>news_by_source := dict_set (label src) articles (news_by_source w2)\<rparr>)
         | Inl msg \<Rightarrow>
             emit_progress (progress_after src) (label src @ '': Failed to collect articles'') []
               (w2\<lparr>errors := errors w2 @ [label src @ '': '' @ msg],
                   news_by_source := dict_set (label src) [] (news_by_source w2)\<rparr>))"

text \<open>The block \<open># 6. Other sources\<close>.\<close>

definition collect_others :: "env \<Rightarrow> world \<Rightarrow> world" where
  "collect_others e w =
     (let w1 = emit_progress 95 ''Collecting international news...'' [] w;
          w2 = w1\<lparr>calls := calls w1 @ [''Others'']\<rparr>
      in case fetch_others e of
           Inr other_sources \<Rightarrow>
             emit_progress 98
               (''International sources: '' @ decimal (count_articles other_sources)
                  @ '' articles collected'')
               other_sources
               (w2\<lparr>news_by_source := dict_update (news_by_source w2) other_sources\<rparr>)
         | Inl msg \<Rightarrow> w2\<lparr>errors := errors w2 @ [''Others: '' @ msg]\<rparr>)"

text \<open>The block \<open># Generate Excel file\<close>.\<close>

definition generate_excel :: "env \<Rightarrow> world \<Rightarrow> world" where
  "generate_excel e w =
     (let w1 = emit_progress 99 ''Generating Excel file...'' [] w;
          w2 = w1\<lparr>calls := calls w1 @ [''Excel'']\<rparr>
      in case create_excel_file e (news_by_source w2) (hours w2) of
           Inr (ok, excel_path) \<Rightarrow>
             if ok then
               emit_progress 100 ''Collection completed successfully!'' []
                 (w2\<lparr>last_excel_path := Some excel_path\<rparr>)
             else
               (let w3 = emit_progress 100 ''Collection completed with Excel generation error'' [] w2
                in w3\<lparr>errors := errors w3 @ [''Excel generation failed'']\<rparr>)
         | Inl msg \<Rightarrow>
             emit_progress 100 ''Collection completed with Excel generation error'' []
               (w2\<lparr>errors := errors w2 @ [''Excel generation: '' @ msg]\<rparr>))"

text \<open>The \<open>finally\<close> block.\<close>

definition finish :: "world \<Rightarrow> world" where
  "finish w =
     (let w1 = w\<lparr>running := False\<rparr>
      in w1\<lparr>completed := Some \<lparr>success = (length (errors w1) = 0),
                                  complete_total = total_articles w1,
                                  complete_errors = errors w1,
                                  excel_available = (last_excel_path w1 \<noteq> None)\<rparr>\<rparr>)"

text \<open>
  The task runs its nine blocks in order; \<open>pc\<close> counts the blocks done. Between two blocks a
  request to \<open>/api/stop\<close> may be served by the web thread.
\<close>

definition work :: "env \<Rightarrow> world \<Rightarrow> world" where
  "work e w =
     (let w' = (if pc w = 0 then initialise e w
                else if pc w = 1 then collect e Singapore w
                else if pc w = 2 then collect e Japan w
                else if pc w = 3 then collect e India w
                else if pc w = 4 then collect e Korea w
                else if pc w = 5 then collect e Yahoo w
                else if pc w = 6 then collect_others e w
                else if pc w = 7 then generate_excel e w
                else if pc w = 8 then finish w
                else w)
      in w'\<lparr>pc := pc w + 1\<rparr>)"

text \<open>\<open>api_stop_scraping\<close>: an error answer when nothing runs, else the flag is cleared.\<close>

definition api_stop_scraping :: "world \<Rightarrow> world" where
  "api_stop_scraping w =
     (if \<not> running w then w
      else emit_progress (progress w) ''Stopping collection...'' [] (w\<lparr>running := False\<rparr>))"

datatype action = Work | StopRequest

fun exec :: "env \<Rightarrow> action list \<Rightarrow> world \<Rightarrow> world" where
  "exec e [] w = w"
| "exec e (Work # as) w = exec e as (work e w)"
| "exec e (StopRequest # as) w = exec e as (api_stop_scraping w)"

definition run_scraping_task :: "env \<Rightarrow> world \<Rightarrow> world" where
  "run_scraping_task e w = exec e (replicate 9 Work) w"

text \<open>The fields that a stop request and the progress reports do not touch.\<close>

definition settled :: "world \<Rightarrow> world" where
  "settled w = w\<lparr>running := False, progress := 0, current_source := [], emitted := []\<rparr>"

subsection \<open>What a run leaves behind, in the words of the specification\<close>

text \<open>
  The contribution of a collector to its group (its articles, or nothing when it raises), the
  error string that its failure adds, the error strings of the report writer, and the
  collaborators that a full run calls, in order.
\<close>

definition collected :: "env \<Rightarrow> source \<Rightarrow> article list" where
  "collected e src = (case fetch e src of Inr articles \<Rightarrow> articles | Inl msg \<Rightarrow> [])"

definition fetch_errors :: "env \<Rightarrow> source \<Rightarrow> string list" where
  "fetch_errors e src = (case fetch e src of Inr articles \<Rightarrow> [] | Inl msg \<Rightarrow> [label src @ '': '' @ msg])"

definition excel_errors :: "(bool \<times> string) outcome \<Rightarrow> string list" where
  "excel_errors r = (case r of Inr (ok, excel_path) \<Rightarrow> (if ok then [] else [''Excel generation failed''])
                     | Inl msg \<Rightarrow> [''Excel generation: '' @ msg])"

definition all_calls :: "string list" where
  "all_calls = [''Singapore'', ''Japan'', ''India'', ''Korea'', ''Yahoo Finance'', ''Others'', ''Excel'']"

subsection \<open>Example runs\<close>

definition story :: "string \<Rightarrow> article" where
  "story n = Dict [(''site'', ''A''), (''headline'', ''Story number '' @ n), (''link'', ''https://a.com/'' @ n)]"

definition env_ok :: env where
  "env_ok = \<lparr>weekday = 2,
     fetch = (\<lambda>src. Inr [story (label src)]),
     fetch_others = Inr (fetch_all_others (\<lambda>src. Inr [story (intl_key src)])),
     create_excel_file = (\<lambda>news hours. Inr (True, ''daily_news_20240115.xlsx''))\<rparr>"

definition env_japan_fails :: env where
  "env_japan_fails = env_ok\<lparr>fetch := (\<lambda>src. if src = Japan then Inl ''timeout'' else Inr [story (label src)])\<rparr>"

definition env_tradewinds_fails :: env where
  "env_tradewinds_fails = env_ok\<lparr>fetch_others :=
     Inr (fetch_all_others (\<lambda>src. if src = TradeWinds then Inl ''timeout'' else Inr [story (intl_key src)]))\<rparr>"

definition env_others_fails :: env where
  "env_others_fails = env_ok\<lparr>fetch_others := Inl ''boom''\<rparr>"

section \<open>Properties of validation and deduplication\<close>

lemma keep_accept: "accepts kept a \<Longrightarrow> keep kept a = kept @ [a]"
  by (simp add: keep_def)

lemma keep_reject: "\<not> accepts kept a \<Longrightarrow> keep kept a = kept"
  by (simp add: keep_def)

text \<open>The guard on empty word sets changes nothing: with an empty word set the similarity
  is 0.\<close>

lemma similar_title_jaccard: "similar_title t s = (jaccard t s > 0.8)"
proof (cases "card (set (split t)) > 0 \<and> card (set (split s)) > 0")
  case True
  then show ?thesis by (simp add: similar_title_def jaccard_def)
next
  case False
  then have "set (split t) \<inter> set (split s) = {}" by auto
  then have "jaccard t s = 0" by (simp add: jaccard_def similarity_def Let_def)
  then have b: "\<not> jaccard t s > 0.8" by simp
  have a: "\<not> similar_title t s"
    unfolding similar_title_def Let_def if_not_P[OF False] by simp
  show ?thesis using a b by blast
qed

lemma seen_url_iff: "(url_of a \<in> url_of ` set kept) = (\<exists>k \<in> set kept. url_of k = url_of a)"
  by (metis imageE rev_image_eqI)

lemma seen_title_iff:
  "(\<exists>seen_title \<in> title_of ` set kept. similar_title t seen_title)
     = (\<exists>k \<in> set kept. jaccard t (title_of k) > 0.8)"
  by (simp add: similar_title_jaccard)

lemma accepts_iff:
  "accepts kept a = (validate_article a \<and> url_of a \<notin> url_of ` set kept \<and>
     \<not> (\<exists>seen_title \<in> title_of ` set kept. similar_title (title_of a) seen_title))"
  unfolding accepts_def duplicate_of_kept_def seen_url_iff seen_title_iff by blast

text \<open>The sets of seen keys are the keys of the kept articles, at every turn of the loop.\<close>

lemma dedup_step_state_of: "dedup_step (state_of kept) a = state_of (keep kept a)"
proof (cases "accepts kept a")
  case True
  then show ?thesis
    unfolding accepts_iff
    by (simp add: keep_accept[OF True] dedup_step_def state_of_def Let_def
        url_of_def[symmetric] title_of_def[symmetric])
next
  case False
  then show ?thesis
    unfolding accepts_iff
    by (auto simp add: keep_reject[OF False] dedup_step_def state_of_def Let_def
        url_of_def[symmetric] title_of_def[symmetric])
qed

lemma foldl_state_of: "foldl dedup_step (state_of kept) xs = state_of (foldl keep kept xs)"
  by (induction xs arbitrary: kept) (simp_all add: dedup_step_state_of)

lemma dedup_foldl_keep: "deduplicate_articles xs = foldl keep [] xs"
proof -
  have init: "dedup_init = state_of []" by (simp add: dedup_init_def state_of_def)
  have "foldl dedup_step dedup_init xs = foldl dedup_step (state_of []) xs"
    by (simp only: init)
  also have "\<dots> = state_of (foldl keep [] xs)" by (rule foldl_state_of)
  finally show ?thesis
    by (simp add: deduplicate_articles_def state_of_def)
qed

lemma keep_valid:
  "\<forall>a \<in> set kept. validate_article a \<Longrightarrow> \<forall>a \<in> set (foldl keep kept xs). validate_article a"
proof (induction xs arbitrary: kept)
  case Nil
  then show ?case by simp
next
  case (Cons a xs)
  have "\<forall>b \<in> set (keep kept a). validate_article b"
  proof (cases "accepts kept a")
    case True
    then show ?thesis using Cons.prems by (simp add: keep_accept accepts_def)
  next
    case False
    then show ?thesis using Cons.prems by (simp add: keep_reject)
  qed
  from Cons.IH[OF this] show ?case by simp
qed

lemma keep_filter: "foldl keep kept (filter validate_article xs) = foldl keep kept xs"
proof (induction xs arbitrary: kept)
  case Nil
  then show ?case by simp
next
  case (Cons a xs)
  show ?case
  proof (cases "validate_article a")
    case True
    then show ?thesis using Cons.IH by simp
  next
    case False
    then have "keep kept a = kept" by (simp add: keep_reject accepts_def)
    with False show ?thesis using Cons.IH by simp
  qed
qed


text \<open>A list that the loop reproduces stays reproduced when the loop goes on from it.\<close>

lemma keep_stable:
  "foldl keep [] kept = kept \<Longrightarrow> foldl keep [] (foldl keep kept xs) = foldl keep kept xs"
proof (induction xs arbitrary: kept)
  case Nil
  then show ?case by simp
next
  case (Cons a xs)
  have "foldl keep [] (keep kept a) = keep kept a"
  proof (cases "accepts kept a")
    case True
    then show ?thesis using Cons.prems by (simp add: keep_accept)
  next
    case False
    then show ?thesis using Cons.prems by (simp add: keep_reject)
  qed
  from Cons.IH[OF this] show ?case by simp
qed

lemma validate_article_fields:
  "validate_article a \<Longrightarrow>
     \<exists>d l h. a = Dict d \<and> map_of d ''link'' = Some l \<and> map_of d ''headline'' = Some h"
  by (cases a) (auto simp: required_fields_def split: if_splits)




text \<open>
  Claim C4. Deduplication is idempotent: deduplicating the output again changes nothing.
\<close>

theorem dedup_idempotent:
  "deduplicate_articles (deduplicate_articles xs) = deduplicate_articles xs"
  using keep_stable[of "[]" xs] by (simp add: dedup_foldl_keep)

theorem dedup_idempotent_witness:
  "deduplicate_articles [budget1, budget2, short_headline, old_story] = [budget1, old_story]
   \<and> deduplicate_articles (deduplicate_articles [budget1, budget2, short_headline, old_story])
       = [budget1, old_story]"
proof -
  have e: "deduplicate_articles [budget1, budget2, short_headline, old_story] = [budget1, old_story]"
    by code_simp
  show ?thesis
    using dedup_idempotent[of "[budget1, budget2, short_headline, old_story]"] e by simp
qed

text \<open>
  Claim C5, as the code has it. A headline that contains one of the spam indicators, compared
  in lower case, is rejected whatever its length: the validator has no length threshold above
  which such a headline is accepted.
\<close>

theorem spam_rejected_at_any_length:
  "indicator \<in> set spam_indicators \<Longrightarrow> contains (lower (dict_get d ''headline'' [])) indicator
     \<Longrightarrow> \<not> validate_article (Dict d)"
  by (auto simp: Let_def)

theorem spam_rejected_at_any_length_witness:
  "''click here'' \<in> set spam_indicators
   \<and> contains (lower (dict_get [(''headline'', ''Click here for the full text of the central bank statement on interest rates and inflation''),
     (''link'', ''https://x.com/statement'')] ''headline'' [])) ''click here''
   \<and> \<not> validate_article long_spam"
proof -
  have h1: "''click here'' \<in> set spam_indicators" by code_simp
  have h2: "contains (lower (dict_get [(''headline'', ''Click here for the full text of the central bank statement on interest rates and inflation''),
     (''link'', ''https://x.com/statement'')] ''headline'' [])) ''click here''" by code_simp
  show ?thesis using spam_rejected_at_any_length[OF h1 h2] h1 h2 by (simp add: long_spam_def)
qed

text \<open>
  Claim C5 as it is stated fails: a headline of 90 characters with the indicator
  \<open>click here\<close>, on an article with an \<open>https\<close> link, is rejected.
\<close>

theorem long_spam_rejected:
  "length (strip (getitem long_spam ''headline'')) = 90
   \<and> startswith (getitem long_spam ''link'') ''https://''
   \<and> \<not> validate_article long_spam"
  by code_simp

text \<open>
  Claim C10. Every article of the output satisfies \<open>validate_article\<close>, and the output is the
  output on the input with the invalid records removed: an invalid record is dropped before
  any comparison, it appears nowhere in the output and no later record is compared with it.
\<close>

theorem dedup_output_valid:
  "(\<forall>a \<in> set (deduplicate_articles xs). validate_article a) \<and>
   deduplicate_articles xs = deduplicate_articles (filter validate_article xs)"
  using keep_valid[of "[]" xs] by (simp add: dedup_foldl_keep keep_filter)

theorem dedup_output_valid_witness:
  "\<not> validate_article short_headline \<and> \<not> validate_article NonDict
   \<and> deduplicate_articles [short_headline, NonDict, funding_tag] = [funding_tag]
   \<and> list_all validate_article (deduplicate_articles [short_headline, NonDict, funding_tag])
   \<and> deduplicate_articles [short_headline, NonDict, funding_tag]
       = deduplicate_articles (filter validate_article [short_headline, NonDict, funding_tag])"
proof -
  have e: "\<not> validate_article short_headline \<and> \<not> validate_article NonDict
     \<and> deduplicate_articles [short_headline, NonDict, funding_tag] = [funding_tag]"
    by code_simp
  show ?thesis
    using dedup_output_valid[of "[short_headline, NonDict, funding_tag]"] e
    unfolding list_all_iff by blast
qed

section \<open>Properties of the regular expressions\<close>




























section \<open>Properties of time normalization\<close>

lemma digits_val_snoc: "digits_val (s @ [c]) = 10 * digits_val s + (of_char c - 48)"
  by (simp add: digits_val_def)

lemma decimal_digits: "all_digits (decimal n) \<and> digits_val (decimal n) = n"
proof (induction n rule: decimal.induct)
  case (1 n)
  show ?case
  proof (cases "n < 10")
    case True
    then have "decimal n = [char_of (48 + n)]" by (simp only: decimal.simps[of n] if_True)
    moreover from True have "of_char (char_of (48 + n)) = 48 + n" by (simp add: of_char_of)
    ultimately show ?thesis using True by (simp add: all_digits_def isdigit_def digits_val_def)
  next
    case False
    then have e: "decimal n = decimal (n div 10) @ [char_of (48 + n mod 10)]"
      by (simp only: decimal.simps[of n] if_False)
    have "n mod 10 < 10" by simp
    then have c: "of_char (char_of (48 + n mod 10)) = 48 + n mod 10"
      by (simp add: of_char_of)
    from 1 False have "all_digits (decimal (n div 10))" "digits_val (decimal (n div 10)) = n div 10"
      by blast+
    then show ?thesis unfolding e using c
      by (simp add: all_digits_def isdigit_def digits_val_snoc)
  qed
qed






















section \<open>Properties of the timeframe filter\<close>




section \<open>The sign of the results\<close>














section \<open>ISO timestamps\<close>

lemma rep_fixed:
  "rep_greedy P n (Some n) k s =
     (if n \<le> length s \<and> list_all P (take n s) then k (drop n s) else None)"
proof (induction n arbitrary: s)
  case 0
  then show ?case by (cases s) (simp_all add: dec_def)
next
  case (Suc n)
  show ?case
  proof (cases s)
    case Nil
    then show ?thesis by simp
  next
    case (Cons c cs)
    then show ?thesis using Suc[of cs] by (auto simp: dec_def split: option.splits)
  qed
qed

lemma fixed_items_match:
  assumes "list_all2 fixed_item g ns" and "match_items g k s = Some y"
  shows "\<exists>pre rest. s = pre @ rest \<and> length pre = sum_list ns \<and> CHR ''Z'' \<notin> set pre
           \<and> k rest = Some y"
  using assms
proof (induction g ns arbitrary: s rule: list_all2_induct)
  case Nil
  then show ?case by simp
next
  case (Cons it g n ns)
  from Cons.hyps(1) obtain P where it: "it = Rep P n (Some n)" and nz: "\<forall>c. P c \<longrightarrow> c \<noteq> CHR ''Z''"
    unfolding fixed_item_def by blast
  from Cons.prems have c: "n \<le> length s" "list_all P (take n s)"
    and m: "match_items g k (drop n s) = Some y"
    by (auto simp: it rep_fixed split: if_splits)
  from Cons.IH[OF m] obtain pre rest where
    p: "drop n s = pre @ rest" "length pre = sum_list ns" "CHR ''Z'' \<notin> set pre" "k rest = Some y"
    by blast
  have "s = (take n s @ pre) @ rest" using p(1) by (metis append_assoc append_take_drop_id)
  moreover have "length (take n s @ pre) = sum_list (n # ns)" using c(1) p(2) by simp
  moreover have "CHR ''Z'' \<notin> set (take n s @ pre)" using c(2) nz p(3) by (auto simp: list_all_iff)
  ultimately show ?case using p(4) by blast
qed

lemma fixed_group_match:
  assumes "list_all2 fixed_item g ns" and "match_group1 g [] s = Some x"
  shows "length x = sum_list ns \<and> CHR ''Z'' \<notin> set x"
proof -
  from fixed_items_match[OF assms(1) assms(2)[unfolded match_group1_def]]
  obtain pre rest where p: "s = pre @ rest" "length pre = sum_list ns" "CHR ''Z'' \<notin> set pre"
    "match_items [] (\<lambda>s2. Some (take (length s - length rest) s)) rest = Some x" by blast
  then have "x = pre" by simp
  with p show ?thesis by simp
qed

lemma search_is_match:
  "re_search_group1 g r s = Some x \<Longrightarrow> \<exists>s'. match_group1 g r s' = Some x"
  by (induction s) (auto split: option.splits)

lemma lit_i_fixed: "lower_char c \<noteq> CHR ''z'' \<Longrightarrow> fixed_item (lit_i c) (Suc 0)"
proof -
  assume a: "lower_char c \<noteq> CHR ''z''"
  have z: "lower_char CHR ''Z'' = CHR ''z''" by code_simp
  show ?thesis unfolding fixed_item_def lit_i_def using a z by auto
qed

lemma digits_fixed: "fixed_item (Rep isdigit n (Some n)) n"
  unfolding fixed_item_def by (auto simp: isdigit_def)

lemma iso_group_fixed: "list_all2 fixed_item iso_group [4, 1, 2, 1, 2, 1, 2, 1, 2, 1, 2]"
proof -
  have c: "lower_char CHR ''-'' \<noteq> CHR ''z'' \<and> lower_char CHR ''T'' \<noteq> CHR ''z''
     \<and> lower_char CHR '':'' \<noteq> CHR ''z''" by code_simp
  show ?thesis unfolding iso_group_def using c by (simp add: lit_i_fixed digits_fixed)
qed

lemma iso_group_text:
  assumes "re_search_group1 iso_group [] text = Some x"
  shows "length x = 19 \<and> CHR ''Z'' \<notin> set x"
proof -
  from search_is_match[OF assms] obtain s' where "match_group1 iso_group [] s' = Some x" by blast
  from fixed_group_match[OF iso_group_fixed this] show ?thesis by simp
qed

lemma replace_Z_id: "CHR ''Z'' \<notin> set s \<Longrightarrow> replace_Z s = s"
  by (induction s) (auto simp: replace_Z_def)

lemma fromisoformat_naive: "length s = 19 \<Longrightarrow> fromisoformat s = Inr dt \<Longrightarrow> tzinfo dt = None"
  by (auto simp: fromisoformat_def Let_def split: if_splits)

text \<open>The converter on a timestamp without offset: the difference raises \<open>TypeError\<close>.\<close>

lemma parse_iso_naive:
  assumes "length s = 19" and "CHR ''Z'' \<notin> set s"
  shows "parse_iso_timestamp clk s = None"
proof (cases "fromisoformat s")
  case (Inl e)
  then show ?thesis by (simp add: parse_iso_timestamp_def replace_Z_id[OF assms(2)])
next
  case (Inr dt)
  from fromisoformat_naive[OF assms(1) Inr] have "datetime_sub (now_utc clk) dt = Inl TypeError"
    by (simp add: datetime_sub_def now_utc_def)
  with Inr show ?thesis by (simp add: parse_iso_timestamp_def replace_Z_id[OF assms(2)])
qed

lemma try_patterns_skip:
  "\<not> list_ex (\<lambda>(g, r, c). re_search_group1 g r text \<noteq> None) ps
     \<Longrightarrow> try_patterns (ps @ qs) text = try_patterns qs text"
  by (induction ps) auto

lemma patterns_split:
  "patterns clk = take 11 (patterns clk) @
     (iso_group, [], \<lambda>x. Inr (parse_iso_timestamp clk x)) # drop 12 (patterns clk)"
  by (simp add: patterns_def)


text \<open>
  Claim C9, what the code does. When no numeric pattern is found in the text and an ISO
  timestamp is, the normalizer returns \<open>None\<close>, whatever the clock: group 1 of the ISO
  pattern ends with the seconds, so \<open>fromisoformat\<close> gives a naive value, and subtracting it
  from the aware \<open>now\<close> raises \<open>TypeError\<close>, which \<open>parse_iso_timestamp\<close> turns into \<open>None\<close>.
  No age is computed for any ISO timestamp.
\<close>

theorem iso_timestamp_unknown:
  assumes "t \<noteq> []" and "\<not> numeric_found clk (strip (lower t))"
    and "re_search_group1 iso_group [] (strip (lower t)) \<noteq> None"
  shows "parse_relative_time clk (Some t) = None"
proof -
  let ?text = "strip (lower t)"
  from assms(3) obtain x where x: "re_search_group1 iso_group [] ?text = Some x" by blast
  from iso_group_text[OF x] have "parse_iso_timestamp clk x = None"
    by (simp add: parse_iso_naive)
  with x have "try_patterns ((iso_group, [], \<lambda>x. Inr (parse_iso_timestamp clk x))
      # drop 12 (patterns clk)) ?text = Some None" by simp
  with try_patterns_skip[OF assms(2)[unfolded numeric_found_def]]
  have "try_patterns (patterns clk) ?text = Some None"
    by (subst patterns_split) simp
  with assms(1) show ?thesis by (simp add: parse_relative_time_def Let_def)
qed

theorem iso_timestamp_unknown_witness:
  "''2024-01-15T01:00:00Z'' \<noteq> []
   \<and> \<not> numeric_found clock0 (strip (lower ''2024-01-15T01:00:00Z''))
   \<and> re_search_group1 iso_group [] (strip (lower ''2024-01-15T01:00:00Z'')) = Some ''2024-01-15t01:00:00''
   \<and> parse_relative_time clock0 (Some ''2024-01-15T01:00:00Z'') = None"
proof -
  have a: "''2024-01-15T01:00:00Z'' \<noteq> []" by simp
  have b: "\<not> numeric_found clock0 (strip (lower ''2024-01-15T01:00:00Z''))" by code_simp
  have c: "re_search_group1 iso_group [] (strip (lower ''2024-01-15T01:00:00Z''))
     = Some ''2024-01-15t01:00:00''" by code_simp
  then have c': "re_search_group1 iso_group [] (strip (lower ''2024-01-15T01:00:00Z'')) \<noteq> None"
    by simp
  show ?thesis using iso_timestamp_unknown[OF a b c'] a b c by simp
qed

section \<open>Properties of the orchestrator\<close>

subsection \<open>Stop requests\<close>

lemma settled_stop: "settled (api_stop_scraping w) = settled w"
  by (simp add: settled_def api_stop_scraping_def emit_progress_def Let_def)

lemma settled_pc: "settled (w\<lparr>pc := n\<rparr>) = (settled w)\<lparr>pc := n\<rparr>"
  by (simp add: settled_def)

lemma pc_settled: "pc (settled w) = pc w"
  by (simp add: settled_def)

lemma settled_initialise: "settled (initialise e w) = settled (initialise e (settled w))"
  by (simp add: settled_def initialise_def emit_progress_def Let_def)

lemma settled_collect: "settled (collect e src w) = settled (collect e src (settled w))"
  by (cases "fetch e src") (simp_all add: settled_def collect_def emit_progress_def Let_def)

lemma settled_collect_others: "settled (collect_others e w) = settled (collect_others e (settled w))"
  by (cases "fetch_others e") (simp_all add: settled_def collect_others_def emit_progress_def Let_def)

lemma settled_finish: "settled (finish w) = settled (finish (settled w))"
  by (simp add: settled_def finish_def Let_def)

lemma settled_generate_excel: "settled (generate_excel e w) = settled (generate_excel e (settled w))"
proof (cases "create_excel_file e (news_by_source w) (hours w)")
  case (Inl msg)
  then show ?thesis
    by (simp add: settled_def generate_excel_def emit_progress_def Let_def)
next
  case (Inr r)
  obtain ok path where r: "r = (ok, path)" by (cases r) auto
  show ?thesis using Inr r
    by (cases ok) (simp_all add: settled_def generate_excel_def emit_progress_def Let_def)
qed

lemma settled_work_self: "settled (work e w) = settled (work e (settled w))"
  unfolding work_def Let_def pc_settled settled_pc
  using settled_initialise[of e w] settled_collect[of e _ w] settled_collect_others[of e w]
    settled_generate_excel[of e w] settled_finish[of w]
  by (simp add: settled_def)

lemma settled_work: "settled w = settled w' \<Longrightarrow> settled (work e w) = settled (work e w')"
  using settled_work_self[of e w] settled_work_self[of e w'] by simp

lemma exec_settled:
  "settled w = settled w' \<Longrightarrow>
     settled (exec e sched w) = settled (exec e (filter (\<lambda>a. a = Work) sched) w')"
proof (induction sched arbitrary: w w')
  case Nil
  then show ?case by simp
next
  case (Cons a sched)
  show ?case
  proof (cases a)
    case Work
    with Cons.IH[OF settled_work[OF Cons.prems]] show ?thesis by simp
  next
    case StopRequest
    have "settled (api_stop_scraping w) = settled w'" using Cons.prems by (simp add: settled_stop)
    with Cons.IH[OF this] StopRequest show ?thesis by simp
  qed
qed

lemma settled_fields:
  assumes "settled w = settled w'"
  shows "calls w = calls w' \<and> news_by_source w = news_by_source w'
     \<and> errors w = errors w' \<and> completed w = completed w' \<and> pc w = pc w'"
proof -
  have p: "\<And>v. calls (settled v) = calls v \<and> news_by_source (settled v) = news_by_source v
     \<and> errors (settled v) = errors v \<and> completed (settled v) = completed v \<and> pc (settled v) = pc v"
    by (simp add: settled_def)
  from p[of w] p[of w'] assms show ?thesis by simp
qed

text \<open>
  Claim C6, what the code does. A stop request clears the flag \<open>running\<close>, but the task never
  reads the flag: whatever the moments at which stop requests arrive, the run calls the same
  collaborators, collects the same groups, records the same errors and ends with the same
  final event as the run without any stop request. No collector is skipped.
\<close>

theorem stop_request_ignored:
  "calls (exec e sched w) = calls (exec e (filter (\<lambda>a. a = Work) sched) w)
   \<and> news_by_source (exec e sched w) = news_by_source (exec e (filter (\<lambda>a. a = Work) sched) w)
   \<and> errors (exec e sched w) = errors (exec e (filter (\<lambda>a. a = Work) sched) w)
   \<and> completed (exec e sched w) = completed (exec e (filter (\<lambda>a. a = Work) sched) w)"
  using settled_fields[OF exec_settled[OF refl, of e sched w]] by simp

text \<open>A stop request served after the Singapore collector: the flag is cleared, and the
  remaining collectors and the report writer are called all the same.\<close>

theorem stop_request_ignored_witness:
  "running (exec env_ok [Work, Work] world0)
   \<and> \<not> running (exec env_ok [Work, Work, StopRequest] world0)
   \<and> calls (exec env_ok [Work, Work, StopRequest] world0) = [''Singapore'']
   \<and> calls (exec env_ok [Work, Work, StopRequest, Work, Work, Work, Work, Work, Work, Work] world0)
       = all_calls"
proof -
  have a: "running (exec env_ok [Work, Work] world0)
     \<and> \<not> running (exec env_ok [Work, Work, StopRequest] world0)
     \<and> calls (exec env_ok [Work, Work, StopRequest] world0) = [''Singapore'']" by code_simp
  have b: "calls (exec env_ok [Work, Work, Work, Work, Work, Work, Work, Work, Work] world0) = all_calls"
    by code_simp
  show ?thesis
    using stop_request_ignored[of env_ok
        "[Work, Work, StopRequest, Work, Work, Work, Work, Work, Work, Work]" world0] a b
    by simp
qed

subsection \<open>A collector that raises\<close>

lemma map_of_dict_set: "map_of (dict_set k v d) k' = (if k' = k then Some v else map_of d k')"
  by (induction d) auto

lemma map_of_dict_update:
  "k \<notin> fst ` set other \<Longrightarrow> map_of (dict_update d other) k = map_of d k"
proof (induction other arbitrary: d)
  case Nil
  then show ?case by (simp add: dict_update_def)
next
  case (Cons p other)
  obtain k' v where p: "p = (k', v)" by (cases p) auto
  from Cons.prems p have ne: "k \<noteq> k'" and rest: "k \<notin> fst ` set other" by auto
  have "map_of (dict_update (dict_set k' v d) other) k = map_of (dict_set k' v d) k"
    using Cons.IH[OF rest] by simp
  then show ?case using ne p by (simp add: dict_update_def map_of_dict_set)
qed

text \<open>What each block does to the errors, to \<open>news_by_source\<close> and to the calls.\<close>

lemma initialise_fields:
  "errors (initialise e w) = [] \<and> news_by_source (initialise e w) = []
   \<and> calls (initialise e w) = calls w \<and> hours (initialise e w) = get_collection_hours (weekday e)"
  by (simp add: initialise_def emit_progress_def Let_def)

lemma collect_fields:
  "errors (collect e src w) = errors w @ fetch_errors e src
   \<and> news_by_source (collect e src w) = dict_set (label src) (collected e src) (news_by_source w)
   \<and> calls (collect e src w) = calls w @ [label src] \<and> hours (collect e src w) = hours w"
  by (cases "fetch e src")
    (simp_all add: collect_def emit_progress_def Let_def fetch_errors_def collected_def)

lemma collect_others_fields:
  "fetch_others e = Inr other_sources \<Longrightarrow>
   errors (collect_others e w) = errors w
   \<and> news_by_source (collect_others e w) = dict_update (news_by_source w) other_sources
   \<and> calls (collect_others e w) = calls w @ [''Others''] \<and> hours (collect_others e w) = hours w"
  by (simp add: collect_others_def emit_progress_def Let_def)

lemma generate_excel_fields:
  "errors (generate_excel e w)
     = errors w @ excel_errors (create_excel_file e (news_by_source w) (hours w))
   \<and> news_by_source (generate_excel e w) = news_by_source w
   \<and> calls (generate_excel e w) = calls w @ [''Excel''] \<and> hours (generate_excel e w) = hours w"
proof (cases "create_excel_file e (news_by_source w) (hours w)")
  case (Inl msg)
  then show ?thesis by (simp add: generate_excel_def emit_progress_def Let_def excel_errors_def)
next
  case (Inr r)
  obtain ok path where r: "r = (ok, path)" by (cases r) auto
  show ?thesis using Inr r
    by (cases ok) (simp_all add: generate_excel_def emit_progress_def Let_def excel_errors_def)
qed

lemma finish_fields:
  "errors (finish w) = errors w \<and> news_by_source (finish w) = news_by_source w
   \<and> calls (finish w) = calls w \<and> hours (finish w) = hours w
   \<and> map_option success (completed (finish w)) = Some (errors w = [])"
  by (simp add: finish_def Let_def)

text \<open>No block reads or writes the counter of the blocks.\<close>

lemma pc_blocks:
  "initialise e (w\<lparr>pc := n\<rparr>) = (initialise e w)\<lparr>pc := n\<rparr>"
  "collect e src (w\<lparr>pc := n\<rparr>) = (collect e src w)\<lparr>pc := n\<rparr>"
  "collect_others e (w\<lparr>pc := n\<rparr>) = (collect_others e w)\<lparr>pc := n\<rparr>"
  "finish (w\<lparr>pc := n\<rparr>) = (finish w)\<lparr>pc := n\<rparr>"
     apply (simp add: initialise_def emit_progress_def Let_def)
    apply (cases "fetch e src"; simp add: collect_def emit_progress_def Let_def)
   apply (cases "fetch_others e"; simp add: collect_others_def emit_progress_def Let_def)
  apply (simp add: finish_def Let_def)
  done

lemma pc_generate_excel: "generate_excel e (w\<lparr>pc := n\<rparr>) = (generate_excel e w)\<lparr>pc := n\<rparr>"
proof (cases "create_excel_file e (news_by_source w) (hours w)")
  case (Inl msg)
  then show ?thesis by (simp add: generate_excel_def emit_progress_def Let_def)
next
  case (Inr r)
  obtain ok path where r: "r = (ok, path)" by (cases r) auto
  show ?thesis using Inr r
    by (cases ok) (simp_all add: generate_excel_def emit_progress_def Let_def)
qed

lemma run_blocks:
  assumes "pc w = 0"
  shows "run_scraping_task e w =
     (finish (generate_excel e (collect_others e (collect e Yahoo (collect e Korea
        (collect e India (collect e Japan (collect e Singapore (initialise e w)))))))))\<lparr>pc := 9\<rparr>"
proof -
  have nine: "replicate 9 Work = [Work, Work, Work, Work, Work, Work, Work, Work, Work]"
    by (simp add: eval_nat_numeral)
  have w: "\<And>v n. work e (v\<lparr>pc := n\<rparr>) =
      (let w = v\<lparr>pc := n\<rparr>; w' = (if n = 0 then initialise e w
                else if n = 1 then collect e Singapore w
                else if n = 2 then collect e Japan w
                else if n = 3 then collect e India w
                else if n = 4 then collect e Korea w
                else if n = 5 then collect e Yahoo w
                else if n = 6 then collect_others e w
                else if n = 7 then generate_excel e w
                else if n = 8 then finish w
                else w)
      in w'\<lparr>pc := n + 1\<rparr>)"
    by (simp add: work_def Let_def)
  have s0: "work e w = (initialise e w)\<lparr>pc := 1\<rparr>" using assms by (simp add: work_def)
  show ?thesis
    unfolding run_scraping_task_def nine exec.simps s0
    by (simp add: w Let_def pc_blocks pc_generate_excel)
qed

lemma run_fields:
  assumes "pc w = 0" and "fetch_others e = Inr other_sources"
  shows "errors (run_scraping_task e w) =
           fetch_errors e Singapore @ fetch_errors e Japan @ fetch_errors e India
             @ fetch_errors e Korea @ fetch_errors e Yahoo
             @ excel_errors (create_excel_file e (news_by_source (run_scraping_task e w))
                 (hours (run_scraping_task e w)))"
    and "news_by_source (run_scraping_task e w) =
           dict_update [(''Singapore'', collected e Singapore), (''Japan'', collected e Japan),
              (''India'', collected e India), (''Korea'', collected e Korea),
              (''Yahoo Finance'', collected e Yahoo)] other_sources"
    and "calls (run_scraping_task e w) = calls w @ all_calls"
    and "map_option success (completed (run_scraping_task e w))
           = Some (errors (run_scraping_task e w) = [])"
  unfolding run_blocks[OF assms(1)]
  by (simp_all add: finish_fields generate_excel_fields collect_others_fields[OF assms(2)]
      collect_fields initialise_fields all_calls_def)

lemma intl_step:
  "(case r of Inr articles \<Rightarrow> dict_set k articles d | Inl e \<Rightarrow> dict_set k [] d)
     = dict_set k (case r of Inr articles \<Rightarrow> articles | Inl e \<Rightarrow> []) d"
  by (cases r) simp_all

lemma fetch_all_others_keys:
  "map fst (fetch_all_others f) = [''TradeWinds'', ''Bloomberg'', ''TrendForce'', ''UDN Money'', ''GMK Center'']"
  by (simp add: fetch_all_others_def intl_step)

lemma labels_not_intl: "label s \<notin> fst ` set (fetch_all_others f)"
proof -
  have "fst ` set (fetch_all_others f) = set (map fst (fetch_all_others f))" by simp
  then show ?thesis unfolding fetch_all_others_keys by (cases s) simp_all
qed

text \<open>
  Claim C7, as the code has it. When exactly one of the five collectors that the task calls
  for one group each raises, the run's error list is the one error string that names the
  source and carries the text of the exception, followed by what the report writer adds;
  the group of the source holds the empty list and every other group holds what its
  collector returned; all six collector calls and the call of the report writer are made;
  and the success flag of the final event is true exactly when the error list is empty.
\<close>

theorem one_collector_fails:
  assumes "pc w = 0" and "fetch e src = Inl msg"
    and "\<forall>s. s \<noteq> src \<longrightarrow> (\<exists>articles. fetch e s = Inr articles)"
    and "fetch_others e = Inr other_sources"
    and "\<forall>s. label s \<notin> fst ` set other_sources"
  shows "errors (run_scraping_task e w) =
           (label src @ '': '' @ msg)
             # excel_errors (create_excel_file e (news_by_source (run_scraping_task e w))
                 (hours (run_scraping_task e w)))
       \<and> map_of (news_by_source (run_scraping_task e w)) (label src) = Some []
       \<and> (\<forall>s. map_of (news_by_source (run_scraping_task e w)) (label s) = Some (collected e s))
       \<and> calls (run_scraping_task e w) = calls w @ all_calls
       \<and> map_option success (completed (run_scraping_task e w))
           = Some (errors (run_scraping_task e w) = [])"
proof -
  note f = run_fields[OF assms(1,4)]
  have one: "fetch_errors e src = [label src @ '': '' @ msg]"
    using assms(2) by (simp add: fetch_errors_def)
  have none: "\<And>s. s \<noteq> src \<Longrightarrow> fetch_errors e s = []"
    using assms(3) by (auto simp: fetch_errors_def)
  have empty: "collected e src = []" using assms(2) by (simp add: collected_def)
  have e: "errors (run_scraping_task e w) =
           (label src @ '': '' @ msg)
             # excel_errors (create_excel_file e (news_by_source (run_scraping_task e w))
                 (hours (run_scraping_task e w)))"
    unfolding f(1) using one none by (cases src) auto
  have n: "\<And>s. map_of (news_by_source (run_scraping_task e w)) (label s) = Some (collected e s)"
  proof -
    fix s
    from assms(5) have "label s \<notin> fst ` set other_sources" by blast
    then show "map_of (news_by_source (run_scraping_task e w)) (label s) = Some (collected e s)"
      unfolding f(2) by (cases s) (simp_all add: map_of_dict_update)
  qed
  show ?thesis using e n[of src] n empty f(3) f(4) by simp
qed

theorem one_collector_fails_witness:
  "fetch env_japan_fails Japan = Inl ''timeout''
   \<and> errors (run_scraping_task env_japan_fails world0) = [''Japan: timeout'']
   \<and> map_of (news_by_source (run_scraping_task env_japan_fails world0)) ''Japan'' = Some []
   \<and> map_of (news_by_source (run_scraping_task env_japan_fails world0)) ''Korea''
       = Some [story ''Korea'']
   \<and> calls (run_scraping_task env_japan_fails world0) = all_calls
   \<and> map_option success (completed (run_scraping_task env_japan_fails world0)) = Some False"
proof -
  have p: "pc world0 = 0" by (simp add: world0_def)
  have j: "fetch env_japan_fails Japan = Inl ''timeout''"
    by (simp add: env_japan_fails_def env_ok_def)
  have o: "\<forall>s. s \<noteq> Japan \<longrightarrow> (\<exists>articles. fetch env_japan_fails s = Inr articles)"
    by (simp add: env_japan_fails_def env_ok_def)
  have i: "fetch_others env_japan_fails = Inr (fetch_all_others (\<lambda>src. Inr [story (intl_key src)]))"
    by (simp add: env_japan_fails_def env_ok_def)
  have l: "\<forall>s. label s \<notin> fst ` set (fetch_all_others (\<lambda>src. Inr [story (intl_key src)]))"
    using labels_not_intl by blast
  have x: "\<And>news h. excel_errors (create_excel_file env_japan_fails news h) = []"
    by (simp add: env_japan_fails_def env_ok_def excel_errors_def)
  have k: "collected env_japan_fails Korea = [story ''Korea'']"
    by (simp add: collected_def env_japan_fails_def env_ok_def)
  have c: "calls world0 = []" by (simp add: world0_def)
  note t = one_collector_fails[OF p j o i l]
  from t have t1: "errors (run_scraping_task env_japan_fails world0) = [''Japan: timeout'']"
    by (simp add: x)
  from t have t2: "map_of (news_by_source (run_scraping_task env_japan_fails world0)) ''Japan'' = Some []"
    by simp
  from t have "\<forall>s. map_of (news_by_source (run_scraping_task env_japan_fails world0)) (label s)
       = Some (collected env_japan_fails s)" by blast
  from this[rule_format, of Korea]
  have t3: "map_of (news_by_source (run_scraping_task env_japan_fails world0)) ''Korea''
       = Some [story ''Korea'']" by (simp add: k)
  from t have t4: "calls (run_scraping_task env_japan_fails world0) = all_calls"
    by (simp add: c)
  from t have "map_option success (completed (run_scraping_task env_japan_fails world0))
       = Some (errors (run_scraping_task env_japan_fails world0) = [])" by blast
  then have t5: "map_option success (completed (run_scraping_task env_japan_fails world0)) = Some False"
    by (simp add: t1)
  show ?thesis using j t1 t2 t3 t4 t5 by blast
qed

text \<open>
  Claim C7 as it is stated fails for the international sources: when the TradeWinds
  collector raises, \<open>fetch_all_others\<close> catches the exception and stores the empty list, no
  error string reaches the run's error list and the run reports success.
\<close>

theorem international_source_fails:
  "fetch_others env_tradewinds_fails
     = Inr (fetch_all_others (\<lambda>src. if src = TradeWinds then Inl ''timeout'' else Inr [story (intl_key src)]))
   \<and> errors (run_scraping_task env_tradewinds_fails world0) = []
   \<and> map_of (news_by_source (run_scraping_task env_tradewinds_fails world0)) ''TradeWinds'' = Some []
   \<and> map_option success (completed (run_scraping_task env_tradewinds_fails world0)) = Some True"
proof -
  have a: "fetch_others env_tradewinds_fails
     = Inr (fetch_all_others (\<lambda>src. if src = TradeWinds then Inl ''timeout'' else Inr [story (intl_key src)]))"
    by (simp add: env_tradewinds_fails_def)
  have b: "errors (run_scraping_task env_tradewinds_fails world0) = []
   \<and> map_of (news_by_source (run_scraping_task env_tradewinds_fails world0)) ''TradeWinds'' = Some []
   \<and> map_option success (completed (run_scraping_task env_tradewinds_fails world0)) = Some True"
    by code_simp
  from a b show ?thesis by simp
qed

text \<open>When the call of \<open>fetch_all_others\<close> itself raises, one error string is added and no
  group is recorded for the international sources.\<close>

lemma others_call_fails:
  "errors (run_scraping_task env_others_fails world0) = [''Others: boom'']
   \<and> map fst (news_by_source (run_scraping_task env_others_fails world0))
       = [''Singapore'', ''Japan'', ''India'', ''Korea'', ''Yahoo Finance'']"
  by code_simp

end
